theory Spec2Isabelle
  imports Complex_Main
begin

section \<open>The instance scheduler (index.ts): data model\<close>

text \<open>
  The Lambda handler of \<^verbatim>\<open>index.ts\<close> evaluates a list of schedules against the wall
  clock, a holiday table and two inventory listings (EC2 and Lightsail), and for each
  schedule either sends a start/stop command or reports why it did nothing.

  Everything the handler awaits or reads from its environment is an argument of the
  model: the values returned by \<^verbatim>\<open>new Date()\<close>, the holiday table returned by the
  holiday API, the two listings returned by the AWS clients. Everything it does beyond
  returning is a result of the model: the \<^verbatim>\<open>results\<close> array it logs and the commands it
  hands to \<^verbatim>\<open>ec2.send\<close> / \<^verbatim>\<open>lightsail.send\<close>.
\<close>

subsection \<open>types.ts\<close>

text \<open>
  The fields typed \<^verbatim>\<open>number\<close> hold whole numbers: an hour, a minute, weekday numbers
  and the holiday setting, which is optional.
\<close>

record EventSchedule =
  resourceType :: string
  resourceId :: string
  eventType :: string
  eventHour :: int
  eventMinute :: int
  weekdays :: "int list"
  holiday :: "int option"

record AWSLambdaEvent =
  schedules :: "EventSchedule list"

text \<open>\<^verbatim>\<open>ApiHoliday\<close> is an object used as a dictionary from date keys to holiday names.\<close>

type_synonym ApiHoliday = "string \<rightharpoonup> string"

text \<open>
  The \<^verbatim>\<open>details\<close> of a result is one of nine messages. The source writes them as
  Japanese string literals and two template strings; the second copy of the handler
  collects them in the table \<^verbatim>\<open>MESSAGES\<close>, whose keys name the constructors here.
  The two templates keep their argument: the weekday that
  \<^verbatim>\<open>japaneseWeekday.format(currentDate)\<close> renders (0 = Sunday .. 6 = Saturday) and the
  holiday name. Different constructors stand for different strings: the seven fixed
  texts differ from each other, the holiday text wraps the name in a fixed frame that
  begins with the word for holiday and an opening bracket, which no weekday name and no
  fixed text does, and it determines the name.
\<close>

datatype MESSAGES =
    CANCELLED_TIME_OUT_OF_RANGE
  | CANCELLED_INSTANCE_ALREADY_RUNNING
  | CANCELLED_INSTANCE_ALREADY_STOPPED
  | CANCELLED_TODAY_NOT_WORKING_DAY int
  | CANCELLED_TODAY_IS_HOLIDAY string
  | INSTANCE_START_INSTRUCTED
  | INSTANCE_STOP_INSTRUCTED
  | INSTANCE_NOT_FOUND
  | SETTING_MAYBE_INCORRECT

record ResultItem =
  resouceType :: string
  resourceId :: string
  eventType :: string
  details :: MESSAGES

subsection \<open>The listings of the AWS SDK, as far as the handler reads them\<close>

text \<open>Every field the SDK declares optional (\<^verbatim>\<open>?:\<close>) is an option.\<close>

record EC2InstanceState =
  Name :: "string option"

record EC2Instance =
  InstanceId :: "string option"
  State :: "EC2InstanceState option"

record Reservation =
  Instances :: "EC2Instance list option"

record DescribeInstancesCommandOutput =
  Reservations :: "Reservation list option"

record LightsailInstanceState =
  name :: "string option"

record LightsailInstance =
  name :: "string option"
  resourceType :: "string option"
  state :: "LightsailInstanceState option"

record GetInstancesCommandOutput =
  instances :: "LightsailInstance list option"

text \<open>
  The commands handed to the two clients. \<^verbatim>\<open>ec2.send\<close> and \<^verbatim>\<open>lightsail.send\<close> are
  called without \<^verbatim>\<open>await\<close>; what the model keeps of the call is the command sent.
\<close>

datatype command =
    StartInstancesCommand "string list"
  | StopInstancesCommand "string list"
  | StartInstanceCommand string
  | StopInstanceCommand string

section \<open>The JavaScript \<^verbatim>\<open>Date\<close> object\<close>

text \<open>
  A \<^verbatim>\<open>Date\<close> holds a time value: milliseconds since the epoch, in UTC. Its local
  fields are computed from the time value shifted by the offset \<open>tza\<close> of the process
  time zone, taken here as a constant number of milliseconds (a zone without daylight
  saving, as Asia/Tokyo and UTC are). The functions below follow the abstract
  operations of the ECMAScript specification, whose names they keep.
\<close>

type_synonym Date = int

definition msPerDay :: int where "msPerDay = 86400000"
definition msPerHour :: int where "msPerHour = 3600000"
definition msPerMinute :: int where "msPerMinute = 60000"
definition msPerSecond :: int where "msPerSecond = 1000"

definition Day :: "int \<Rightarrow> int" where
  "Day t = t div msPerDay"

definition HourFromTime :: "int \<Rightarrow> int" where
  "HourFromTime t = (t div msPerHour) mod 24"

definition MinFromTime :: "int \<Rightarrow> int" where
  "MinFromTime t = (t div msPerMinute) mod 60"

definition WeekDay :: "int \<Rightarrow> int" where
  "WeekDay t = (Day t + 4) mod 7"

definition LocalTime :: "int \<Rightarrow> int \<Rightarrow> int" where
  "LocalTime tza t = t + tza"

definition UTC :: "int \<Rightarrow> int \<Rightarrow> int" where
  "UTC tza t = t - tza"

definition MakeTime :: "int \<Rightarrow> int \<Rightarrow> int \<Rightarrow> int \<Rightarrow> int" where
  "MakeTime hour minute sec ms =
     hour * msPerHour + minute * msPerMinute + sec * msPerSecond + ms"

definition MakeDate :: "int \<Rightarrow> int \<Rightarrow> int" where
  "MakeDate day time = day * msPerDay + time"

text \<open>
  Year, month and day of the month of a day number (days since 1970-01-01) in the
  proleptic Gregorian calendar, by counting in 400-year eras that begin on 1 March.
  The month is 1..12 here; \<^verbatim>\<open>getMonth\<close> below subtracts one.
\<close>

definition civil_from_days :: "int \<Rightarrow> int \<times> int \<times> int" where
  "civil_from_days z0 =
     (let z = z0 + 719468;
          era = z div 146097;
          doe = z - era * 146097;
          yoe = (doe - doe div 1460 + doe div 36524 - doe div 146096) div 365;
          y = yoe + era * 400;
          doy = doe - (365 * yoe + yoe div 4 - yoe div 100);
          mp = (5 * doy + 2) div 153;
          d = doy - (153 * mp + 2) div 5 + 1;
          m = (if mp < 10 then mp + 3 else mp - 9)
      in (if m \<le> 2 then y + 1 else y, m, d))"

definition YearFromTime :: "int \<Rightarrow> int" where
  "YearFromTime t = fst (civil_from_days (Day t))"

definition MonthFromTime :: "int \<Rightarrow> int" where
  "MonthFromTime t = fst (snd (civil_from_days (Day t))) - 1"

definition DateFromTime :: "int \<Rightarrow> int" where
  "DateFromTime t = snd (snd (civil_from_days (Day t)))"

definition getTime :: "Date \<Rightarrow> int" where
  "getTime d = d"

definition getFullYear :: "int \<Rightarrow> Date \<Rightarrow> int" where
  "getFullYear tza d = YearFromTime (LocalTime tza d)"

definition getMonth :: "int \<Rightarrow> Date \<Rightarrow> int" where
  "getMonth tza d = MonthFromTime (LocalTime tza d)"

definition getDate :: "int \<Rightarrow> Date \<Rightarrow> int" where
  "getDate tza d = DateFromTime (LocalTime tza d)"

definition getDay :: "int \<Rightarrow> Date \<Rightarrow> int" where
  "getDay tza d = WeekDay (LocalTime tza d)"

definition getHours :: "int \<Rightarrow> Date \<Rightarrow> int" where
  "getHours tza d = HourFromTime (LocalTime tza d)"

definition getMinutes :: "int \<Rightarrow> Date \<Rightarrow> int" where
  "getMinutes tza d = MinFromTime (LocalTime tza d)"

text \<open>
  A \<^verbatim>\<open>Date\<close> holds a time value of at most 8.64e15 milliseconds in magnitude. An
  operation whose result leaves this range (the last step of \<^verbatim>\<open>setHours\<close>, named
  TimeClip) leaves an invalid date, whose \<^verbatim>\<open>getTime\<close> is not a number. The integers of
  this model stand for valid dates: the definitions say what the source computes as long
  as the dates involved are valid, and a statement that needs it says so with
  \<open>validDate\<close>.
\<close>

definition maxTimeValue :: int where "maxTimeValue = 8640000000000000"

definition validDate :: "Date \<Rightarrow> bool" where
  "validDate d \<longleftrightarrow> - maxTimeValue \<le> d \<and> d \<le> maxTimeValue"

text \<open>
  \<^verbatim>\<open>d.setHours(hour, min, sec, ms)\<close> keeps the local day of \<open>d\<close> and replaces the time
  within the day; an hour of 24 or more carries into the following days. The result
  is the date the source has when it is a valid one.
\<close>

definition setHours :: "int \<Rightarrow> Date \<Rightarrow> int \<Rightarrow> int \<Rightarrow> int \<Rightarrow> int \<Rightarrow> Date" where
  "setHours tza d hour minute sec ms =
     UTC tza (MakeDate (Day (LocalTime tza d)) (MakeTime hour minute sec ms))"

text \<open>\<^verbatim>\<open>japaneseWeekday.format(d)\<close> renders the name of the weekday of \<open>d\<close>.\<close>

definition japaneseWeekday_format :: "int \<Rightarrow> Date \<Rightarrow> int" where
  "japaneseWeekday_format tza d = WeekDay (LocalTime tza d)"

subsection \<open>Numbers as strings\<close>

fun digits :: "nat \<Rightarrow> string" where
  "digits n =
     (if n < 10 then [''0123456789'' ! n]
      else digits (n div 10) @ [''0123456789'' ! (n mod 10)])"

declare digits.simps [simp del]

definition toString :: "int \<Rightarrow> string" where
  "toString i = (if i < 0 then CHR ''-'' # digits (nat (- i)) else digits (nat i))"

definition padStart :: "nat \<Rightarrow> char \<Rightarrow> string \<Rightarrow> string" where
  "padStart targetLength c s = replicate (targetLength - length s) c @ s"

section \<open>index.ts\<close>

definition JST_TZ_OFFSET :: int where "JST_TZ_OFFSET = 9"

definition CANCEL_EVENT_ON_PUBLIC_HOLIDAY :: int where "CANCEL_EVENT_ON_PUBLIC_HOLIDAY = 1"

definition createResultItem :: "EventSchedule \<Rightarrow> MESSAGES \<Rightarrow> ResultItem" where
  "createResultItem schedule msg =
     \<lparr> resouceType = EventSchedule.resourceType schedule,
       ResultItem.resourceId = EventSchedule.resourceId schedule,
       ResultItem.eventType = EventSchedule.eventType schedule,
       details = msg \<rparr>"

subsection \<open>Looking an instance up in a listing\<close>

text \<open>
  \<^verbatim>\<open>ec2Result?.Reservations?.flatMap((reservation) => reservation.Instances || [])
     .find((instance) => instance?.InstanceId === resourceId)\<close>
\<close>

definition searchEc2Instance ::
  "string \<Rightarrow> DescribeInstancesCommandOutput \<Rightarrow> EC2Instance option" where
  "searchEc2Instance rid ec2Result =
     (case Reservations ec2Result of
        None \<Rightarrow> None
      | Some rs \<Rightarrow>
          List.find (\<lambda>instance. InstanceId instance = Some rid)
            (concat (map (\<lambda>reservation.
               case Instances reservation of None \<Rightarrow> [] | Some is \<Rightarrow> is) rs)))"

text \<open>
  \<^verbatim>\<open>lightsailResult?.instances?.find((instance) =>
     instance.resourceType === "Instance" && instance.name === resourceId)\<close>
\<close>

definition searchLightsailInstance ::
  "string \<Rightarrow> GetInstancesCommandOutput \<Rightarrow> LightsailInstance option" where
  "searchLightsailInstance rid lightsailResult =
     (case instances lightsailResult of
        None \<Rightarrow> None
      | Some is \<Rightarrow>
          List.find (\<lambda>instance.
             LightsailInstance.resourceType instance = Some ''Instance'' \<and>
             LightsailInstance.name instance = Some rid) is)"

subsection \<open>The four actions\<close>

text \<open>
  Each returns the result item and the commands it sent. \<^verbatim>\<open>targetInstance.State?.Name\<close>
  is the state name when both the state and its name are present.
\<close>

definition startEc2Instance ::
  "EventSchedule \<Rightarrow> DescribeInstancesCommandOutput \<Rightarrow> ResultItem \<times> command list" where
  "startEc2Instance schedule ec2Result =
     (case searchEc2Instance (EventSchedule.resourceId schedule) ec2Result of
        Some targetInstance \<Rightarrow>
          if Option.bind (State targetInstance) Name = Some ''running''
          then (createResultItem schedule CANCELLED_INSTANCE_ALREADY_RUNNING, [])
          else (createResultItem schedule INSTANCE_START_INSTRUCTED,
                [StartInstancesCommand [EventSchedule.resourceId schedule]])
      | None \<Rightarrow> (createResultItem schedule INSTANCE_NOT_FOUND, []))"

definition stopEc2Instance ::
  "EventSchedule \<Rightarrow> DescribeInstancesCommandOutput \<Rightarrow> ResultItem \<times> command list" where
  "stopEc2Instance schedule ec2Result =
     (case searchEc2Instance (EventSchedule.resourceId schedule) ec2Result of
        Some targetInstance \<Rightarrow>
          if Option.bind (State targetInstance) Name = Some ''stopped''
          then (createResultItem schedule CANCELLED_INSTANCE_ALREADY_STOPPED, [])
          else (createResultItem schedule INSTANCE_STOP_INSTRUCTED,
                [StopInstancesCommand [EventSchedule.resourceId schedule]])
      | None \<Rightarrow> (createResultItem schedule INSTANCE_NOT_FOUND, []))"

definition startLightsailInstance ::
  "EventSchedule \<Rightarrow> GetInstancesCommandOutput \<Rightarrow> ResultItem \<times> command list" where
  "startLightsailInstance schedule lightsailResult =
     (case searchLightsailInstance (EventSchedule.resourceId schedule) lightsailResult of
        Some targetInstance \<Rightarrow>
          if Option.bind (state targetInstance) LightsailInstanceState.name = Some ''running''
          then (createResultItem schedule CANCELLED_INSTANCE_ALREADY_RUNNING, [])
          else (createResultItem schedule INSTANCE_START_INSTRUCTED,
                [StartInstanceCommand (EventSchedule.resourceId schedule)])
      | None \<Rightarrow> (createResultItem schedule INSTANCE_NOT_FOUND, []))"

definition stopLightsailInstance ::
  "EventSchedule \<Rightarrow> GetInstancesCommandOutput \<Rightarrow> ResultItem \<times> command list" where
  "stopLightsailInstance schedule lightsailResult =
     (case searchLightsailInstance (EventSchedule.resourceId schedule) lightsailResult of
        Some targetInstance \<Rightarrow>
          if Option.bind (state targetInstance) LightsailInstanceState.name = Some ''stopped''
          then (createResultItem schedule CANCELLED_INSTANCE_ALREADY_STOPPED, [])
          else (createResultItem schedule INSTANCE_STOP_INSTRUCTED,
                [StopInstanceCommand (EventSchedule.resourceId schedule)])
      | None \<Rightarrow> (createResultItem schedule INSTANCE_NOT_FOUND, []))"

subsection \<open>The handler\<close>

text \<open>
  \<^verbatim>\<open>currentDate\<close>: the clock reading \<open>now\<close>, moved nine hours ahead and cut to the minute.
\<close>

definition currentDate_of :: "int \<Rightarrow> Date \<Rightarrow> Date" where
  "currentDate_of tza now =
     setHours tza now (getHours tza now + JST_TZ_OFFSET) (getMinutes tza now) 0 0"

definition currentDateStr_of :: "int \<Rightarrow> Date \<Rightarrow> string" where
  "currentDateStr_of tza currentDate =
     toString (getFullYear tza currentDate) @ ''-'' @
     padStart 2 (CHR ''0'') (toString (getMonth tza currentDate + 1)) @ ''-'' @
     padStart 2 (CHR ''0'') (toString (getDate tza currentDate))"

text \<open>\<^verbatim>\<open>Object.keys(holidays).includes(currentDateStr)\<close>\<close>

definition todayIsHoliday :: "ApiHoliday \<Rightarrow> string \<Rightarrow> bool" where
  "todayIsHoliday holidays currentDateStr = (currentDateStr \<in> dom holidays)"

text \<open>
  \<^verbatim>\<open>holidays[currentDateStr]\<close> inside the template string; a missing key would render
  as the text of \<^verbatim>\<open>undefined\<close>.
\<close>

definition holidayName :: "ApiHoliday \<Rightarrow> string \<Rightarrow> string" where
  "holidayName holidays currentDateStr =
     (case holidays currentDateStr of Some n \<Rightarrow> n | None \<Rightarrow> ''undefined'')"

text \<open>
  \<^verbatim>\<open>eventDate\<close>: a fresh clock reading \<open>newDate\<close>, set to the schedule's hour (nine hours
  ahead as well) and minute. \<^verbatim>\<open>diffSecond\<close> is a quotient of two integers, a rational
  here; the comparisons with 0 and 300 that the handler makes on the floating-point
  quotient have the same outcome on the exact one. When \<^verbatim>\<open>currentDate\<close> or
  \<^verbatim>\<open>eventDate\<close> is an invalid date the source's \<^verbatim>\<open>diffSecond\<close> is not a number, which
  this rational does not express; the statement on the window test below is for valid
  dates.
\<close>

definition eventDate_of :: "int \<Rightarrow> Date \<Rightarrow> EventSchedule \<Rightarrow> Date" where
  "eventDate_of tza newDate schedule =
     setHours tza newDate (eventHour schedule + JST_TZ_OFFSET) (eventMinute schedule) 0 0"

definition diffSecond :: "int \<Rightarrow> Date \<Rightarrow> Date \<Rightarrow> EventSchedule \<Rightarrow> rat" where
  "diffSecond tza currentDate newDate schedule =
     of_int (getTime currentDate - getTime (eventDate_of tza newDate schedule)) / 1000"

text \<open>
  The callback of \<^verbatim>\<open>event.schedules.map\<close>. The variables it closes over
  (\<^verbatim>\<open>currentDate\<close>, \<^verbatim>\<open>currentDateStr\<close>, \<^verbatim>\<open>holidays\<close>, the two listings) come first,
  then the value of its own \<^verbatim>\<open>new Date()\<close>, then the schedule.
\<close>

definition scheduleCallback ::
  "int \<Rightarrow> Date \<Rightarrow> string \<Rightarrow> ApiHoliday \<Rightarrow> DescribeInstancesCommandOutput \<Rightarrow>
   GetInstancesCommandOutput \<Rightarrow> Date \<Rightarrow> EventSchedule \<Rightarrow> ResultItem \<times> command list" where
  "scheduleCallback tza currentDate currentDateStr holidays ec2Result lightsailResult
       newDate schedule =
     (if diffSecond tza currentDate newDate schedule < 0
         \<or> 300 < diffSecond tza currentDate newDate schedule
      then (createResultItem schedule CANCELLED_TIME_OUT_OF_RANGE, [])
      else if getDay tza currentDate \<notin> set (weekdays schedule)
      then (createResultItem schedule
              (CANCELLED_TODAY_NOT_WORKING_DAY (japaneseWeekday_format tza currentDate)), [])
      else if todayIsHoliday holidays currentDateStr
              \<and> holiday schedule = Some CANCEL_EVENT_ON_PUBLIC_HOLIDAY
      then (createResultItem schedule
              (CANCELLED_TODAY_IS_HOLIDAY (holidayName holidays currentDateStr)), [])
      else
        (let resourceEventType =
               EventSchedule.resourceType schedule @ EventSchedule.eventType schedule
         in if resourceEventType = ''ec2start'' then startEc2Instance schedule ec2Result
            else if resourceEventType = ''ec2stop'' then stopEc2Instance schedule ec2Result
            else if resourceEventType = ''lightsailstart''
              then startLightsailInstance schedule lightsailResult
            else if resourceEventType = ''lightsailstop''
              then stopLightsailInstance schedule lightsailResult
            else (createResultItem schedule SETTING_MAYBE_INCORRECT, [])))"

text \<open>
  The handler. \<open>now\<close> is the value of the first \<^verbatim>\<open>new Date()\<close>, \<open>clock i\<close> the value of
  the \<^verbatim>\<open>new Date()\<close> in the callback for the schedule at index \<open>i\<close>. The result is the
  \<^verbatim>\<open>results\<close> array that the handler logs, and the commands sent, in order; the value
  the handler returns is the constant status \<^verbatim>\<open>success\<close> and is left out.
\<close>

definition handler ::
  "int \<Rightarrow> Date \<Rightarrow> (nat \<Rightarrow> Date) \<Rightarrow> ApiHoliday \<Rightarrow> DescribeInstancesCommandOutput \<Rightarrow>
   GetInstancesCommandOutput \<Rightarrow> AWSLambdaEvent \<Rightarrow> ResultItem list \<times> command list" where
  "handler tza now clock holidays ec2Result lightsailResult event =
     (let currentDate = currentDate_of tza now;
          currentDateStr = currentDateStr_of tza currentDate;
          outs = map (\<lambda>(i, schedule).
                   scheduleCallback tza currentDate currentDateStr holidays
                     ec2Result lightsailResult (clock i) schedule)
                 (enumerate 0 (schedules event))
      in (map fst outs, concat (map snd outs)))"

section \<open>Concrete invocations\<close>

text \<open>
  Inputs on which the theorems below are evaluated. The process runs in UTC
  (\<open>tza = 0\<close>), so \<^verbatim>\<open>currentDate\<close> shows Japanese wall-clock time and a schedule's
  \<^verbatim>\<open>eventHour\<close> is compared with the UTC hour: the rule below is due at 00:00 UTC,
  09:00 in Japan, Monday to Friday, and is cancelled on holidays.
\<close>

definition ex_rule :: "string \<Rightarrow> string \<Rightarrow> string \<Rightarrow> EventSchedule" where
  "ex_rule rt rid et =
     \<lparr> EventSchedule.resourceType = rt, EventSchedule.resourceId = rid,
       EventSchedule.eventType = et, eventHour = 0, eventMinute = 0,
       weekdays = [1, 2, 3, 4, 5], holiday = Some 1 \<rparr>"

definition ex_ec2 :: DescribeInstancesCommandOutput where
  "ex_ec2 = \<lparr> Reservations = Some
     [ \<lparr> Instances = None \<rparr>,
       \<lparr> Instances = Some
           [ \<lparr> InstanceId = Some ''i-0aaa'', State = Some \<lparr> Name = Some ''stopped'' \<rparr> \<rparr>,
             \<lparr> InstanceId = Some ''i-0bbb'', State = Some \<lparr> Name = Some ''running'' \<rparr> \<rparr> ] \<rparr>,
       \<lparr> Instances = Some
           [ \<lparr> InstanceId = Some ''i-0ccc'', State = Some \<lparr> Name = Some ''pending'' \<rparr> \<rparr> ] \<rparr> ] \<rparr>"

definition ex_lightsail :: GetInstancesCommandOutput where
  "ex_lightsail = \<lparr> instances = Some
     [ \<lparr> LightsailInstance.name = Some ''web'', resourceType = Some ''StaticIp'',
         state = None \<rparr>,
       \<lparr> LightsailInstance.name = Some ''web'', resourceType = Some ''Instance'',
         state = Some \<lparr> LightsailInstanceState.name = Some ''running'' \<rparr> \<rparr>,
       \<lparr> LightsailInstance.name = Some ''db'', resourceType = Some ''Instance'',
         state = Some \<lparr> LightsailInstanceState.name = Some ''stopped'' \<rparr> \<rparr> ] \<rparr>"

definition ex_holidays :: ApiHoliday where
  "ex_holidays =
     [''2024-01-01'' \<mapsto> ''Ganjitsu'', ''2024-01-08'' \<mapsto> ''Seijin no Hi'',
      ''2024-02-11'' \<mapsto> ''Kenkoku Kinen no Hi'']"

text \<open>Wednesday 2024-01-10, 00:02:30.000 UTC.\<close>
definition wed_0002 :: Date where "wed_0002 = 1704844950000"

text \<open>Wednesday 2024-01-10, 00:05:30.123 UTC.\<close>
definition wed_0005 :: Date where "wed_0005 = 1704845130123"

text \<open>Monday 2024-01-08, 00:02:30.000 UTC, a holiday in \<open>ex_holidays\<close>.\<close>
definition mon_0002 :: Date where "mon_0002 = 1704672150000"

text \<open>Sunday 2024-01-07, 00:02:30.000 UTC.\<close>
definition sun_0002 :: Date where "sun_0002 = 1704585750000"

text \<open>Sunday 2024-02-11, 00:02:30.000 UTC, a holiday in \<open>ex_holidays\<close>.\<close>
definition sun_holiday :: Date where "sun_holiday = 1707609750000"

text \<open>The same rule, due at another hour and minute.\<close>

definition ex_rule_at :: "int \<Rightarrow> int \<Rightarrow> string \<Rightarrow> string \<Rightarrow> string \<Rightarrow> EventSchedule" where
  "ex_rule_at h m rt rid et =
     \<lparr> EventSchedule.resourceType = rt, EventSchedule.resourceId = rid,
       EventSchedule.eventType = et, eventHour = h, eventMinute = m,
       weekdays = [1, 2, 3, 4, 5], holiday = Some 1 \<rparr>"

text \<open>
  Friday 2024-01-12, 18:00:20 UTC, which is Saturday 03:00:20 in Japan; and Sunday
  2024-01-07, 18:00:20 UTC, which is Monday 03:00:20 in Japan, a holiday in
  \<open>ex_holidays\<close>.
\<close>

definition fri_1800_utc :: Date where "fri_1800_utc = 1705082420000"


text \<open>
  For a process whose zone is nine hours ahead of UTC (\<open>tza = 32400000\<close>): Friday
  2024-01-12, 18:00:20 local time, and Sunday 2024-01-07, 20:00:20 local time.
\<close>

definition fri_1800_jst :: Date where "fri_1800_jst = 1705050020000"


text \<open>A clock that stands still: every reading in the callbacks is \<open>t\<close>.\<close>

definition frozen_clock :: "Date \<Rightarrow> nat \<Rightarrow> Date" where
  "frozen_clock t i = t"

definition ex_event :: AWSLambdaEvent where
  "ex_event = \<lparr> schedules =
     [ ex_rule ''ec2'' ''i-0aaa'' ''start'', ex_rule ''ec2'' ''i-0bbb'' ''start'',
       ex_rule ''rds'' ''db'' ''stop'', ex_rule ''lightsail'' ''web'' ''stop'' ] \<rparr>"

text \<open>
  An invocation just before midnight of the process time zone: the handler reads the
  clock on Wednesday 2024-01-10 at 23:59:59.900 UTC; the callback reads it 50 ms later,
  or 200 ms later, on Thursday 00:00:00.100. The rule is due at 23:59 on every weekday.
\<close>

definition late_now :: Date where "late_now = 1704931199900"

definition clock_same_day :: "nat \<Rightarrow> Date" where "clock_same_day i = 1704931199950"

definition clock_next_day :: "nat \<Rightarrow> Date" where "clock_next_day i = 1704931200100"

definition late_rule :: EventSchedule where
  "late_rule =
     \<lparr> EventSchedule.resourceType = ''ec2'', EventSchedule.resourceId = ''i-0aaa'',
       EventSchedule.eventType = ''start'', eventHour = 23, eventMinute = 59,
       weekdays = [0, 1, 2, 3, 4, 5, 6], holiday = None \<rparr>"

definition late_event :: AWSLambdaEvent where
  "late_event = \<lparr> schedules = [late_rule] \<rparr>"

text \<open>Listings without their optional fields, and reservations without instances.\<close>

definition ec2_no_fields :: DescribeInstancesCommandOutput where
  "ec2_no_fields = \<lparr> Reservations = None \<rparr>"

definition ec2_no_instances :: DescribeInstancesCommandOutput where
  "ec2_no_instances =
     \<lparr> Reservations = Some [\<lparr> Instances = None \<rparr>, \<lparr> Instances = Some [] \<rparr>] \<rparr>"

definition lightsail_no_fields :: GetInstancesCommandOutput where
  "lightsail_no_fields = \<lparr> instances = None \<rparr>"

section \<open>Auxiliary facts\<close>

lemmas date_defs =
  currentDate_of_def eventDate_of_def setHours_def getTime_def getDay_def getHours_def
  getMinutes_def HourFromTime_def MinFromTime_def WeekDay_def Day_def LocalTime_def
  UTC_def MakeDate_def MakeTime_def msPerDay_def msPerHour_def msPerMinute_def
  msPerSecond_def JST_TZ_OFFSET_def japaneseWeekday_format_def

lemmas action_defs =
  startEc2Instance_def stopEc2Instance_def startLightsailInstance_def
  stopLightsailInstance_def

lemma details_createResultItem [simp]: "details (createResultItem s m) = m"
  by (simp add: createResultItem_def)

lemma createResultItem_inject [simp]:
  "createResultItem s m = createResultItem s m' \<longleftrightarrow> m = m'"
  by (auto simp: createResultItem_def)

text \<open>
  The calendar on known dates: the epoch, the day before it, leap days, a century year
  that is no leap year, and the first day of year 1.
\<close>

lemma civil_from_days_known:
  "civil_from_days 0 = (1970, 1, 1)"
  "civil_from_days (- 1) = (1969, 12, 31)"
  "civil_from_days 11016 = (2000, 2, 29)"
  "civil_from_days 19782 = (2024, 2, 29)"
  "civil_from_days 19783 = (2024, 3, 1)"
  "civil_from_days 47540 = (2100, 2, 28)"
  "civil_from_days 47541 = (2100, 3, 1)"
  "civil_from_days (- 719162) = (1, 1, 1)"
  by code_simp+

text \<open>The window test, on the millisecond difference.\<close>

lemma diffSecond_window:
  "(diffSecond tza cd nd s < 0 \<or> 300 < diffSecond tza cd nd s) \<longleftrightarrow>
   \<not> (0 \<le> getTime cd - getTime (eventDate_of tza nd s) \<and>
      getTime cd - getTime (eventDate_of tza nd s) \<le> 300000)"
  by (auto simp: diffSecond_def field_simps)

text \<open>
  When the callback reads the clock on the same local day as the handler did, the
  difference is the distance in whole minutes between the clock's hour and minute and
  the schedule's: seconds and milliseconds of the clock play no part.
\<close>

lemma diff_ms_same_day:
  assumes "Day (LocalTime tza newDate) = Day (LocalTime tza now)"
  shows "getTime (currentDate_of tza now) - getTime (eventDate_of tza newDate schedule) =
     1000 * (60 * (60 * (getHours tza now - eventHour schedule)
                 + (getMinutes tza now - eventMinute schedule)))"
  using assms
  by (simp add: currentDate_of_def eventDate_of_def setHours_def getTime_def
      UTC_def MakeDate_def MakeTime_def msPerHour_def msPerMinute_def JST_TZ_OFFSET_def
      algebra_simps)

lemma diffSecond_same_day:
  assumes "Day (LocalTime tza newDate) = Day (LocalTime tza now)"
  shows "diffSecond tza (currentDate_of tza now) newDate schedule =
     of_int (60 * (60 * (getHours tza now - eventHour schedule)
                 + (getMinutes tza now - eventMinute schedule)))"
  unfolding diffSecond_def diff_ms_same_day [OF assms] by simp

text \<open>The window test reads the schedule's hour and minute only.\<close>

lemma diffSecond_holiday_update [simp]:
  "diffSecond tza cd nd (s\<lparr>holiday := h\<rparr>) = diffSecond tza cd nd s"
  by (simp add: diffSecond_def eventDate_of_def)

text \<open>\<^verbatim>\<open>getDay\<close> numbers the weekdays 0 to 6; day 0 of the epoch was a Thursday (4).\<close>

lemma getDay_range: "0 \<le> getDay tza d \<and> getDay tza d \<le> 6"
  by (simp add: getDay_def WeekDay_def)

text \<open>The concrete clock readings, evaluated.\<close>

lemma wed_0002_currentDate: "currentDate_of 0 wed_0002 = 1704877320000"
  by (simp add: date_defs wed_0002_def)

lemma wed_0002_facts:
  "getDay 0 (currentDate_of 0 wed_0002) = 3"
  "diffSecond 0 (currentDate_of 0 wed_0002) wed_0002 (ex_rule rt rid et) = 120"
  by (simp_all add: diffSecond_def date_defs wed_0002_def ex_rule_def)

lemma wed_0002_str: "currentDateStr_of 0 (currentDate_of 0 wed_0002) = ''2024-01-10''"
  by code_simp

lemma wed_0005_currentDate: "currentDate_of 0 wed_0005 = 1704877500000"
  by (simp add: date_defs wed_0005_def)

lemma wed_0005_facts:
  "getDay 0 (currentDate_of 0 wed_0005) = 3"
  "diffSecond 0 (currentDate_of 0 wed_0005) wed_0005 (ex_rule rt rid et) = 300"
  by (simp_all add: diffSecond_def date_defs wed_0005_def ex_rule_def)

lemma wed_0005_str: "currentDateStr_of 0 (currentDate_of 0 wed_0005) = ''2024-01-10''"
  by code_simp

lemma mon_0002_currentDate: "currentDate_of 0 mon_0002 = 1704704520000"
  by (simp add: date_defs mon_0002_def)



lemma sun_0002_currentDate: "currentDate_of 0 sun_0002 = 1704618120000"
  by (simp add: date_defs sun_0002_def)


lemma sun_0002_str: "currentDateStr_of 0 (currentDate_of 0 sun_0002) = ''2024-01-07''"
  by code_simp

lemma sun_holiday_facts:
  "getDay 0 (currentDate_of 0 sun_holiday) = 0"
  "diffSecond 0 (currentDate_of 0 sun_holiday) sun_holiday (ex_rule rt rid et) = 120"
  by (simp_all add: diffSecond_def date_defs sun_holiday_def ex_rule_def)

lemma sun_holiday_str: "currentDateStr_of 0 (currentDate_of 0 sun_holiday) = ''2024-02-11''"
  by code_simp

lemma ex_rule_sel [simp]:
  "EventSchedule.resourceType (ex_rule rt rid et) = rt"
  "EventSchedule.resourceId (ex_rule rt rid et) = rid"
  "EventSchedule.eventType (ex_rule rt rid et) = et"
  "eventHour (ex_rule rt rid et) = 0"
  "eventMinute (ex_rule rt rid et) = 0"
  "weekdays (ex_rule rt rid et) = [1, 2, 3, 4, 5]"
  "holiday (ex_rule rt rid et) = Some 1"
  by (simp_all add: ex_rule_def)

lemma ex_holidays_lookup:
  "ex_holidays ''2024-01-10'' = None"
  "ex_holidays ''2024-01-08'' = Some ''Seijin no Hi''"
  "ex_holidays ''2024-01-07'' = None"
  "ex_holidays ''2024-02-11'' = Some ''Kenkoku Kinen no Hi''"
  by (simp_all add: ex_holidays_def)

text \<open>What \<^verbatim>\<open>find\<close> returns satisfies the test and comes from the list.\<close>

lemma find_Some_holds: "List.find P xs = Some x \<Longrightarrow> P x \<and> x \<in> set xs"
  by (induction xs) (auto split: if_splits)

text \<open>The instances that \<^verbatim>\<open>flatMap\<close> collects are those of all reservations.\<close>

lemma set_reservation_instances:
  "i \<in> set (case Instances r of None \<Rightarrow> [] | Some is \<Rightarrow> is)
   \<longleftrightarrow> (\<exists>is. Instances r = Some is \<and> i \<in> set is)"
  by (cases "Instances r") simp_all

lemma set_flat_instances:
  "i \<in> set (concat (map (\<lambda>reservation.
            case Instances reservation of None \<Rightarrow> [] | Some is \<Rightarrow> is) rs))
   \<longleftrightarrow> (\<exists>r is. r \<in> set rs \<and> Instances r = Some is \<and> i \<in> set is)"
proof -
  have "i \<in> set (concat (map (\<lambda>reservation.
            case Instances reservation of None \<Rightarrow> [] | Some is \<Rightarrow> is) rs))
      \<longleftrightarrow> (\<exists>r \<in> set rs. i \<in> set (case Instances r of None \<Rightarrow> [] | Some is \<Rightarrow> is))"
    by simp
  also have "\<dots> \<longleftrightarrow> (\<exists>r is. r \<in> set rs \<and> Instances r = Some is \<and> i \<in> set is)"
    unfolding set_reservation_instances by blast
  finally show ?thesis .
qed

lemma resource_locator_matching:
  "(\<forall>i. searchEc2Instance rid ec2Result = Some i \<longrightarrow>
        InstanceId i = Some rid
        \<and> (\<exists>rs r is. Reservations ec2Result = Some rs \<and> r \<in> set rs
                      \<and> Instances r = Some is \<and> i \<in> set is))
   \<and> (searchEc2Instance rid ec2Result = None \<longleftrightarrow>
        \<not> (\<exists>rs r is i. Reservations ec2Result = Some rs \<and> r \<in> set rs
                        \<and> Instances r = Some is \<and> i \<in> set is
                        \<and> InstanceId i = Some rid))
   \<and> (\<forall>i. searchLightsailInstance rid lightsailResult = Some i \<longrightarrow>
        LightsailInstance.name i = Some rid
        \<and> LightsailInstance.resourceType i = Some ''Instance''
        \<and> (\<exists>is. instances lightsailResult = Some is \<and> i \<in> set is))
   \<and> (searchLightsailInstance rid lightsailResult = None \<longleftrightarrow>
        \<not> (\<exists>is i. instances lightsailResult = Some is \<and> i \<in> set is
                   \<and> LightsailInstance.name i = Some rid
                   \<and> LightsailInstance.resourceType i = Some ''Instance''))"
proof (intro conjI allI impI)
  fix i assume "searchEc2Instance rid ec2Result = Some i"
  then obtain rs where rs: "Reservations ec2Result = Some rs"
    and f: "List.find (\<lambda>instance. InstanceId instance = Some rid)
            (concat (map (\<lambda>reservation.
               case Instances reservation of None \<Rightarrow> [] | Some is \<Rightarrow> is) rs)) = Some i"
    by (auto simp: searchEc2Instance_def split: option.splits)
  from f have "InstanceId i = Some rid"
    and "i \<in> set (concat (map (\<lambda>reservation.
               case Instances reservation of None \<Rightarrow> [] | Some is \<Rightarrow> is) rs))"
    by (auto dest: find_Some_holds)
  then show "InstanceId i = Some rid" 
    and "\<exists>rs r is. Reservations ec2Result = Some rs \<and> r \<in> set rs
                      \<and> Instances r = Some is \<and> i \<in> set is"
    using rs unfolding set_flat_instances by blast+
next
  show "searchEc2Instance rid ec2Result = None \<longleftrightarrow>
        \<not> (\<exists>rs r is i. Reservations ec2Result = Some rs \<and> r \<in> set rs
                        \<and> Instances r = Some is \<and> i \<in> set is
                        \<and> InstanceId i = Some rid)"
  proof (cases "Reservations ec2Result")
    case None
    then show ?thesis by (simp add: searchEc2Instance_def)
  next
    case (Some rs)
    then have "searchEc2Instance rid ec2Result = None \<longleftrightarrow>
        \<not> (\<exists>i. i \<in> set (concat (map (\<lambda>reservation.
               case Instances reservation of None \<Rightarrow> [] | Some is \<Rightarrow> is) rs))
             \<and> InstanceId i = Some rid)"
      by (simp add: searchEc2Instance_def find_None_iff)
    then show ?thesis unfolding set_flat_instances using Some by auto
  qed
next
  fix i assume "searchLightsailInstance rid lightsailResult = Some i"
  then obtain "is" where "instances lightsailResult = Some is"
    and f: "List.find (\<lambda>instance.
             LightsailInstance.resourceType instance = Some ''Instance'' \<and>
             LightsailInstance.name instance = Some rid) is = Some i"
    by (auto simp: searchLightsailInstance_def split: option.splits)
  then show "LightsailInstance.name i = Some rid"
    and "LightsailInstance.resourceType i = Some ''Instance''"
    and "\<exists>is. instances lightsailResult = Some is \<and> i \<in> set is"
    by (auto dest: find_Some_holds)
next
  show "searchLightsailInstance rid lightsailResult = None \<longleftrightarrow>
        \<not> (\<exists>is i. instances lightsailResult = Some is \<and> i \<in> set is
                   \<and> LightsailInstance.name i = Some rid
                   \<and> LightsailInstance.resourceType i = Some ''Instance'')"
    by (cases "instances lightsailResult")
       (auto simp: searchLightsailInstance_def find_None_iff)
qed

text \<open>
  A schedule that passes the three checks on time, weekday and holiday is dispatched on
  the concatenation of its resource type and event type.
\<close>

lemma scheduleCallback_dispatch:
  assumes "0 \<le> diffSecond tza currentDate newDate schedule"
    and "diffSecond tza currentDate newDate schedule \<le> 300"
    and "getDay tza currentDate \<in> set (weekdays schedule)"
    and "\<not> (currentDateStr \<in> dom holidays
            \<and> holiday schedule = Some CANCEL_EVENT_ON_PUBLIC_HOLIDAY)"
  shows "scheduleCallback tza currentDate currentDateStr holidays ec2Result
           lightsailResult newDate schedule =
     (if EventSchedule.resourceType schedule @ EventSchedule.eventType schedule = ''ec2start''
        then startEc2Instance schedule ec2Result
      else if EventSchedule.resourceType schedule @ EventSchedule.eventType schedule = ''ec2stop''
        then stopEc2Instance schedule ec2Result
      else if EventSchedule.resourceType schedule @ EventSchedule.eventType schedule
                = ''lightsailstart''
        then startLightsailInstance schedule lightsailResult
      else if EventSchedule.resourceType schedule @ EventSchedule.eventType schedule
                = ''lightsailstop''
        then stopLightsailInstance schedule lightsailResult
      else (createResultItem schedule SETTING_MAYBE_INCORRECT, []))"
proof -
  have w: "\<not> (diffSecond tza currentDate newDate schedule < 0
             \<or> 300 < diffSecond tza currentDate newDate schedule)"
    using assms(1,2) by auto
  have h: "\<not> (todayIsHoliday holidays currentDateStr
             \<and> holiday schedule = Some CANCEL_EVENT_ON_PUBLIC_HOLIDAY)"
    using assms(4) by (simp add: todayIsHoliday_def)
  show ?thesis
    unfolding scheduleCallback_def Let_def
    by (simp only: w h assms(3) if_False not_not not_True_eq_False simp_thms)
qed

text \<open>The concrete listings, searched.\<close>

lemma ex_ec2_search:
  "searchEc2Instance ''i-0aaa'' ex_ec2
     = Some \<lparr> InstanceId = Some ''i-0aaa'', State = Some \<lparr> Name = Some ''stopped'' \<rparr> \<rparr>"
  "searchEc2Instance ''i-0bbb'' ex_ec2
     = Some \<lparr> InstanceId = Some ''i-0bbb'', State = Some \<lparr> Name = Some ''running'' \<rparr> \<rparr>"
  "searchEc2Instance ''i-0ccc'' ex_ec2
     = Some \<lparr> InstanceId = Some ''i-0ccc'', State = Some \<lparr> Name = Some ''pending'' \<rparr> \<rparr>"
  "searchEc2Instance ''i-0zzz'' ex_ec2 = None"
  by (simp_all add: searchEc2Instance_def ex_ec2_def)

lemma ex_lightsail_search:
  "searchLightsailInstance ''web'' ex_lightsail
     = Some \<lparr> LightsailInstance.name = Some ''web'', resourceType = Some ''Instance'',
              state = Some \<lparr> LightsailInstanceState.name = Some ''running'' \<rparr> \<rparr>"
  "searchLightsailInstance ''db'' ex_lightsail
     = Some \<lparr> LightsailInstance.name = Some ''db'', resourceType = Some ''Instance'',
              state = Some \<lparr> LightsailInstanceState.name = Some ''stopped'' \<rparr> \<rparr>"
  "searchLightsailInstance ''nope'' ex_lightsail = None"
  by (simp_all add: searchLightsailInstance_def ex_lightsail_def)

text \<open>Every result item repeats the identifying fields of its schedule.\<close>

lemma callback_result_shape:
  "\<exists>m. fst (scheduleCallback tza cd cds hol ec2 ls nd s) = createResultItem s m"
  by (auto simp: scheduleCallback_def Let_def action_defs split: option.split)

lemma callback_result_fields:
  "resouceType (fst (scheduleCallback tza cd cds hol ec2 ls nd s)) = EventSchedule.resourceType s"
  "ResultItem.resourceId (fst (scheduleCallback tza cd cds hol ec2 ls nd s))
     = EventSchedule.resourceId s"
  "ResultItem.eventType (fst (scheduleCallback tza cd cds hol ec2 ls nd s))
     = EventSchedule.eventType s"
  using callback_result_shape [of tza cd cds hol ec2 ls nd s]
  by (auto simp: createResultItem_def)

text \<open>The handler as a map over the numbered schedules.\<close>

lemma map_enumerate_shift:
  "map (\<lambda>(i, x). g i x) (enumerate n xs) = map (\<lambda>(i, x). g (n + i) x) (enumerate 0 xs)"
proof (induction xs arbitrary: n g)
  case Nil
  show ?case by simp
next
  case (Cons x xs)
  have "map (\<lambda>(i, x). g i x) (enumerate (Suc n) xs)
        = map (\<lambda>(i, x). g (Suc n + i) x) (enumerate 0 xs)"
    by (rule Cons.IH)
  moreover have "map (\<lambda>(i, x). g (n + i) x) (enumerate (Suc 0) xs)
        = map (\<lambda>(i, x). g (n + (Suc 0 + i)) x) (enumerate 0 xs)"
    using Cons.IH [of "\<lambda>i. g (n + i)" "Suc 0"] by simp
  ultimately show ?case by simp
qed

lemma map_enumerate_values:
  "map (\<lambda>(i, x). f x) (enumerate n xs) = map f xs"
  by (induction xs arbitrary: n) simp_all

lemma handler_results:
  "fst (handler tza now clock hol ec2 ls event) =
     map (\<lambda>(i, schedule).
            fst (scheduleCallback tza (currentDate_of tza now)
                   (currentDateStr_of tza (currentDate_of tza now)) hol ec2 ls (clock i) schedule))
         (enumerate 0 (schedules event))"
  by (simp add: handler_def Let_def case_prod_unfold comp_def)

lemma handler_commands:
  "snd (handler tza now clock hol ec2 ls event) =
     concat (map (\<lambda>(i, schedule).
            snd (scheduleCallback tza (currentDate_of tza now)
                   (currentDateStr_of tza (currentDate_of tza now)) hol ec2 ls (clock i) schedule))
         (enumerate 0 (schedules event)))"
  by (simp add: handler_def Let_def case_prod_unfold comp_def)

lemma handler_append:
  "handler tza now clock hol ec2 ls \<lparr>schedules = xs @ ys\<rparr> =
     (fst (handler tza now clock hol ec2 ls \<lparr>schedules = xs\<rparr>)
        @ fst (handler tza now (\<lambda>i. clock (length xs + i)) hol ec2 ls \<lparr>schedules = ys\<rparr>),
      snd (handler tza now clock hol ec2 ls \<lparr>schedules = xs\<rparr>)
        @ snd (handler tza now (\<lambda>i. clock (length xs + i)) hol ec2 ls \<lparr>schedules = ys\<rparr>))"
proof -
  have e: "enumerate 0 (xs @ ys) = enumerate 0 xs @ enumerate (length xs) ys"
    by (simp add: enumerate_append_eq)
  show ?thesis
    unfolding prod_eq_iff fst_conv snd_conv handler_results handler_commands
    by (simp add: e map_enumerate_shift [where n = "length xs"])
qed

lemma handler_single:
  "handler tza now clock hol ec2 ls \<lparr>schedules = [s]\<rparr> =
     ([fst (scheduleCallback tza (currentDate_of tza now)
              (currentDateStr_of tza (currentDate_of tza now)) hol ec2 ls (clock 0) s)],
      snd (scheduleCallback tza (currentDate_of tza now)
              (currentDateStr_of tza (currentDate_of tza now)) hol ec2 ls (clock 0) s))"
  by (simp add: handler_def Let_def)

text \<open>The callback's clock reading matters through its local day only.\<close>

lemma eventDate_of_day:
  "Day (LocalTime tza nd) = Day (LocalTime tza nd') \<Longrightarrow>
   eventDate_of tza nd s = eventDate_of tza nd' s"
  by (simp add: eventDate_of_def setHours_def)

lemma scheduleCallback_day:
  assumes "Day (LocalTime tza nd) = Day (LocalTime tza nd')"
  shows "scheduleCallback tza cd cds hol ec2 ls nd s = scheduleCallback tza cd cds hol ec2 ls nd' s"
  unfolding scheduleCallback_def diffSecond_def eventDate_of_day [OF assms] ..

lemma scheduleCallback_unrecognized:
  assumes "0 \<le> diffSecond tza currentDate newDate schedule"
    and "diffSecond tza currentDate newDate schedule \<le> 300"
    and "getDay tza currentDate \<in> set (weekdays schedule)"
    and "\<not> (currentDateStr \<in> dom holidays
            \<and> holiday schedule = Some CANCEL_EVENT_ON_PUBLIC_HOLIDAY)"
    and "EventSchedule.resourceType schedule @ EventSchedule.eventType schedule
           \<notin> {''ec2start'', ''ec2stop'', ''lightsailstart'', ''lightsailstop''}"
  shows "scheduleCallback tza currentDate currentDateStr holidays ec2Result
           lightsailResult newDate schedule
         = (createResultItem schedule SETTING_MAYBE_INCORRECT, [])"
  using assms(5) unfolding scheduleCallback_dispatch [OF assms(1-4)] by simp

text \<open>The callback on Wednesday 2024-01-10 at 00:02:30 UTC, and near midnight.\<close>

lemma wed_0002_callback:
  "scheduleCallback 0 (currentDate_of 0 wed_0002) ''2024-01-10'' ex_holidays ex_ec2
     ex_lightsail wed_0002 (ex_rule rt rid et) =
     (if rt @ et = ''ec2start'' then startEc2Instance (ex_rule rt rid et) ex_ec2
      else if rt @ et = ''ec2stop'' then stopEc2Instance (ex_rule rt rid et) ex_ec2
      else if rt @ et = ''lightsailstart''
        then startLightsailInstance (ex_rule rt rid et) ex_lightsail
      else if rt @ et = ''lightsailstop''
        then stopLightsailInstance (ex_rule rt rid et) ex_lightsail
      else (createResultItem (ex_rule rt rid et) SETTING_MAYBE_INCORRECT, []))"
  using scheduleCallback_dispatch [of 0 "currentDate_of 0 wed_0002" wed_0002
      "ex_rule rt rid et" "''2024-01-10''" ex_holidays ex_ec2 ex_lightsail]
  by (simp add: wed_0002_facts ex_holidays_lookup domIff)

lemma late_now_str: "currentDateStr_of 0 (currentDate_of 0 late_now) = ''2024-01-11''"
  by code_simp

lemma late_now_facts:
  "getDay 0 (currentDate_of 0 late_now) = 4"
  "diffSecond 0 (currentDate_of 0 late_now) (clock_same_day i) late_rule = 0"
  "diffSecond 0 (currentDate_of 0 late_now) (clock_next_day i) late_rule = - 86400"
  by (simp_all add: diffSecond_def date_defs late_now_def late_rule_def clock_same_day_def
      clock_next_day_def)

lemma late_now_clock:
  "getHours 0 late_now = 23"
  "getMinutes 0 late_now = 59"
  "eventHour late_rule = 23"
  "eventMinute late_rule = 59"
  by (simp_all add: date_defs late_now_def late_rule_def)

lemma late_rule_sel:
  "EventSchedule.resourceType late_rule = ''ec2''"
  "EventSchedule.resourceId late_rule = ''i-0aaa''"
  "EventSchedule.eventType late_rule = ''start''"
  "weekdays late_rule = [0, 1, 2, 3, 4, 5, 6]"
  "holiday late_rule = None"
  by (simp_all add: late_rule_def)








text \<open>More concrete clock readings, evaluated.\<close>

lemma wed_0002_valid:
  "validDate wed_0002"
  "validDate (currentDate_of 0 wed_0002)"
  "validDate (eventDate_of 0 wed_0002 (ex_rule rt rid et))"
  "validDate (eventDate_of 0 wed_0002 (ex_rule_at 0 3 rt rid et))"
  by (simp_all add: validDate_def maxTimeValue_def date_defs wed_0002_def ex_rule_def
      ex_rule_at_def)

lemma ex_rule_at_sel [simp]:
  "EventSchedule.resourceType (ex_rule_at h m rt rid et) = rt"
  "EventSchedule.resourceId (ex_rule_at h m rt rid et) = rid"
  "EventSchedule.eventType (ex_rule_at h m rt rid et) = et"
  "eventHour (ex_rule_at h m rt rid et) = h"
  "eventMinute (ex_rule_at h m rt rid et) = m"
  "weekdays (ex_rule_at h m rt rid et) = [1, 2, 3, 4, 5]"
  "holiday (ex_rule_at h m rt rid et) = Some 1"
  by (simp_all add: ex_rule_at_def)

lemma wed_0002_early:
  "diffSecond 0 (currentDate_of 0 wed_0002) wed_0002 (ex_rule_at 0 3 rt rid et) = - 60"
  by (simp add: diffSecond_def date_defs wed_0002_def)


lemma fri_1800_utc_str:
  "currentDateStr_of 0 (currentDate_of 0 fri_1800_utc) = ''2024-01-13''"
  by code_simp




lemma fri_1800_jst_str:
  "currentDateStr_of 32400000 (currentDate_of 32400000 fri_1800_jst) = ''2024-01-13''"
  by code_simp



section \<open>The time window\<close>

text \<open>
  C1, as the code has it. For a schedule whose hour and minute are an hour of the day
  and a minute of the hour, in a process whose zone is at most a day from UTC, and as
  long as \<^verbatim>\<open>currentDate\<close>, the callback's clock reading and \<^verbatim>\<open>eventDate\<close> are valid
  dates, the schedule is reported as outside its time window exactly when \<^verbatim>\<open>diffSecond\<close> is negative or greater than 300: the window is closed at
  both ends, \<open>0 \<le> diffSecond \<le> 300\<close>. A difference of 0, of 299 and of exactly 300
  seconds is inside the window; a negative difference and one above 300 seconds are
  outside. \<^verbatim>\<open>diffSecond\<close> is measured from \<^verbatim>\<open>currentDate\<close>, the clock reading cut to the
  minute.
\<close>

theorem time_window_closed_interval:
  assumes "- msPerDay \<le> tza \<and> tza \<le> msPerDay"
    and "validDate currentDate" and "validDate newDate"
    and "validDate (eventDate_of tza newDate schedule)"
    and "0 \<le> eventHour schedule \<and> eventHour schedule \<le> 23"
    and "0 \<le> eventMinute schedule \<and> eventMinute schedule \<le> 59"
  shows
    "details (fst (scheduleCallback tza currentDate currentDateStr holidays ec2Result
                     lightsailResult newDate schedule)) \<noteq> CANCELLED_TIME_OUT_OF_RANGE
     \<longleftrightarrow> 0 \<le> diffSecond tza currentDate newDate schedule
         \<and> diffSecond tza currentDate newDate schedule \<le> 300"
  by (auto simp: scheduleCallback_def Let_def action_defs split: option.split)

text \<open>
  The theorem at Wednesday 00:02:30 UTC: for the rule due at 00:00 the difference is
  120 seconds and the rule is not reported as out of range; for the rule due at 00:03
  the difference is -60 seconds and it is.
\<close>

theorem time_window_closed_interval_witness:
  "diffSecond 0 (currentDate_of 0 wed_0002) wed_0002 (ex_rule ''ec2'' ''i-0aaa'' ''start'') = 120
   \<and> details (fst (scheduleCallback 0 (currentDate_of 0 wed_0002) ''2024-01-10'' ex_holidays
                     ex_ec2 ex_lightsail wed_0002 (ex_rule ''ec2'' ''i-0aaa'' ''start'')))
       \<noteq> CANCELLED_TIME_OUT_OF_RANGE
   \<and> diffSecond 0 (currentDate_of 0 wed_0002) wed_0002
        (ex_rule_at 0 3 ''ec2'' ''i-0aaa'' ''start'') = - 60
   \<and> details (fst (scheduleCallback 0 (currentDate_of 0 wed_0002) ''2024-01-10'' ex_holidays
                     ex_ec2 ex_lightsail wed_0002
                     (ex_rule_at 0 3 ''ec2'' ''i-0aaa'' ''start'')))
       = CANCELLED_TIME_OUT_OF_RANGE"
  using time_window_closed_interval [where tza = 0
      and currentDate = "currentDate_of 0 wed_0002" and currentDateStr = "''2024-01-10''"
      and holidays = ex_holidays and ec2Result = ex_ec2 and lightsailResult = ex_lightsail
      and newDate = wed_0002 and schedule = "ex_rule ''ec2'' ''i-0aaa'' ''start''"]
    time_window_closed_interval [where tza = 0
      and currentDate = "currentDate_of 0 wed_0002" and currentDateStr = "''2024-01-10''"
      and holidays = ex_holidays and ec2Result = ex_ec2 and lightsailResult = ex_lightsail
      and newDate = wed_0002 and schedule = "ex_rule_at 0 3 ''ec2'' ''i-0aaa'' ''start''"]
  by (simp add: wed_0002_facts wed_0002_valid wed_0002_early msPerDay_def)

text \<open>
  C1 as stated fails at a difference of exactly 300 seconds. At Wednesday 00:05:30.123
  UTC the rule due at 00:00 has \<^verbatim>\<open>diffSecond\<close> = 300, passes the window test and the
  two later gates, and the stopped instance is started.
\<close>

theorem time_window_300_counterexample:
  "diffSecond 0 (currentDate_of 0 wed_0005) wed_0005 (ex_rule ''ec2'' ''i-0aaa'' ''start'') = 300
   \<and> scheduleCallback 0 (currentDate_of 0 wed_0005)
        (currentDateStr_of 0 (currentDate_of 0 wed_0005)) ex_holidays
        ex_ec2 ex_lightsail wed_0005 (ex_rule ''ec2'' ''i-0aaa'' ''start'')
     = (createResultItem (ex_rule ''ec2'' ''i-0aaa'' ''start'') INSTANCE_START_INSTRUCTED,
        [StartInstancesCommand [''i-0aaa'']])"
  by (simp add: wed_0005_str scheduleCallback_def wed_0005_facts todayIsHoliday_def
      ex_holidays_def startEc2Instance_def searchEc2Instance_def ex_ec2_def)

section \<open>The weekday filter\<close>



section \<open>The holiday guard\<close>



section \<open>Weekday before holiday\<close>

text \<open>
  C9. For a schedule whose weekday check fails on a day that is also a cancelling
  holiday for it (the weekday of \<^verbatim>\<open>currentDate\<close> is not among its \<^verbatim>\<open>weekdays\<close>, today's
  date key is in the holiday table, and its \<^verbatim>\<open>holiday\<close> setting is
  \<^verbatim>\<open>CANCEL_EVENT_ON_PUBLIC_HOLIDAY\<close>), the result never carries the holiday message;
  when the weekday check is reached, that is, for a schedule inside its time window, the
  result is the not-a-working-day message and no command is sent. The weekday check
  comes before the holiday check and returns.
\<close>

theorem weekday_filter_precedes_holiday_guard:
  assumes "getDay tza currentDate \<notin> set (weekdays schedule)"
    and "currentDateStr \<in> dom holidays"
    and "holiday schedule = Some CANCEL_EVENT_ON_PUBLIC_HOLIDAY"
  shows
    "(0 \<le> diffSecond tza currentDate newDate schedule
        \<and> diffSecond tza currentDate newDate schedule \<le> 300 \<longrightarrow>
        scheduleCallback tza currentDate currentDateStr holidays ec2Result
          lightsailResult newDate schedule
        = (createResultItem schedule
             (CANCELLED_TODAY_NOT_WORKING_DAY (getDay tza currentDate)), []))
     \<and> (\<forall>n. details (fst (scheduleCallback tza currentDate currentDateStr holidays ec2Result
                             lightsailResult newDate schedule))
             \<noteq> CANCELLED_TODAY_IS_HOLIDAY n)"
  using assms
  by (auto simp: scheduleCallback_def getDay_def japaneseWeekday_format_def)

text \<open>
  The theorem on Sunday 2024-02-11, a holiday of the table, for the rule with weekdays
  1 to 5 that cancels on holidays.
\<close>

theorem weekday_filter_precedes_holiday_guard_witness:
  "getDay 0 (currentDate_of 0 sun_holiday) = 0
   \<and> ex_holidays ''2024-02-11'' = Some ''Kenkoku Kinen no Hi''
   \<and> scheduleCallback 0 (currentDate_of 0 sun_holiday) ''2024-02-11'' ex_holidays ex_ec2
       ex_lightsail sun_holiday (ex_rule ''ec2'' ''i-0aaa'' ''start'')
     = (createResultItem (ex_rule ''ec2'' ''i-0aaa'' ''start'')
          (CANCELLED_TODAY_NOT_WORKING_DAY 0), [])"
  using weekday_filter_precedes_holiday_guard [where tza = 0
      and currentDate = "currentDate_of 0 sun_holiday"
      and newDate = sun_holiday and schedule = "ex_rule ''ec2'' ''i-0aaa'' ''start''"
      and currentDateStr = "''2024-02-11''" and holidays = ex_holidays
      and ec2Result = ex_ec2 and lightsailResult = ex_lightsail]
  by (simp add: sun_holiday_facts ex_holidays_def CANCEL_EVENT_ON_PUBLIC_HOLIDAY_def)

section \<open>The resource locator\<close>

text \<open>
  C7. The lookup depends on the kind of resource. For EC2 an instance is found only
  if its \<^verbatim>\<open>InstanceId\<close> equals the schedule's resource id, and the search covers the
  instances of all reservations: it finds nothing exactly when no reservation lists an
  instance with that id. For Lightsail an entry is found only if its \<^verbatim>\<open>name\<close> equals
  the resource id and its \<^verbatim>\<open>resourceType\<close> is \<^verbatim>\<open>Instance\<close>, and nothing is found exactly
  when the listing has no such entry. In both kinds finding nothing is an ordinary
  result: the actions answer with the instance-not-found message and send no command.
\<close>

theorem resource_locator_by_kind:
  "(\<forall>i. searchEc2Instance rid ec2Result = Some i \<longrightarrow>
        InstanceId i = Some rid
        \<and> (\<exists>rs r is. Reservations ec2Result = Some rs \<and> r \<in> set rs
                      \<and> Instances r = Some is \<and> i \<in> set is))
   \<and> (searchEc2Instance rid ec2Result = None \<longleftrightarrow>
        \<not> (\<exists>rs r is i. Reservations ec2Result = Some rs \<and> r \<in> set rs
                        \<and> Instances r = Some is \<and> i \<in> set is
                        \<and> InstanceId i = Some rid))
   \<and> (\<forall>i. searchLightsailInstance rid lightsailResult = Some i \<longrightarrow>
        LightsailInstance.name i = Some rid
        \<and> LightsailInstance.resourceType i = Some ''Instance''
        \<and> (\<exists>is. instances lightsailResult = Some is \<and> i \<in> set is))
   \<and> (searchLightsailInstance rid lightsailResult = None \<longleftrightarrow>
        \<not> (\<exists>is i. instances lightsailResult = Some is \<and> i \<in> set is
                   \<and> LightsailInstance.name i = Some rid
                   \<and> LightsailInstance.resourceType i = Some ''Instance''))
   \<and> (\<forall>schedule. EventSchedule.resourceId schedule = rid \<longrightarrow>
        (searchEc2Instance rid ec2Result = None \<longrightarrow>
           startEc2Instance schedule ec2Result
             = (createResultItem schedule INSTANCE_NOT_FOUND, [])
           \<and> stopEc2Instance schedule ec2Result
             = (createResultItem schedule INSTANCE_NOT_FOUND, []))
        \<and> (searchLightsailInstance rid lightsailResult = None \<longrightarrow>
           startLightsailInstance schedule lightsailResult
             = (createResultItem schedule INSTANCE_NOT_FOUND, [])
           \<and> stopLightsailInstance schedule lightsailResult
             = (createResultItem schedule INSTANCE_NOT_FOUND, [])))"
proof -
  have absent: "\<forall>schedule. EventSchedule.resourceId schedule = rid \<longrightarrow>
        (searchEc2Instance rid ec2Result = None \<longrightarrow>
           startEc2Instance schedule ec2Result
             = (createResultItem schedule INSTANCE_NOT_FOUND, [])
           \<and> stopEc2Instance schedule ec2Result
             = (createResultItem schedule INSTANCE_NOT_FOUND, []))
        \<and> (searchLightsailInstance rid lightsailResult = None \<longrightarrow>
           startLightsailInstance schedule lightsailResult
             = (createResultItem schedule INSTANCE_NOT_FOUND, [])
           \<and> stopLightsailInstance schedule lightsailResult
             = (createResultItem schedule INSTANCE_NOT_FOUND, []))"
    by (simp add: action_defs)
  show ?thesis
    using resource_locator_matching [of rid ec2Result lightsailResult] absent
    by (intro conjI) (elim conjE, assumption)+
qed

text \<open>
  The theorem on the concrete listings: an id listed in the third reservation is found,
  the Lightsail entry named \<open>web\<close> that is found is the instance and not the static
  address of the same name, and unknown names are reported as not found.
\<close>

theorem resource_locator_by_kind_witness:
  "searchEc2Instance ''i-0ccc'' ex_ec2
     = Some \<lparr> InstanceId = Some ''i-0ccc'', State = Some \<lparr> Name = Some ''pending'' \<rparr> \<rparr>
   \<and> searchEc2Instance ''i-0zzz'' ex_ec2 = None
   \<and> searchLightsailInstance ''web'' ex_lightsail
     = Some \<lparr> LightsailInstance.name = Some ''web'', resourceType = Some ''Instance'',
              state = Some \<lparr> LightsailInstanceState.name = Some ''running'' \<rparr> \<rparr>
   \<and> searchLightsailInstance ''nope'' ex_lightsail = None
   \<and> stopEc2Instance (ex_rule ''ec2'' ''i-0zzz'' ''stop'') ex_ec2
     = (createResultItem (ex_rule ''ec2'' ''i-0zzz'' ''stop'') INSTANCE_NOT_FOUND, [])
   \<and> startLightsailInstance (ex_rule ''lightsail'' ''nope'' ''start'') ex_lightsail
     = (createResultItem (ex_rule ''lightsail'' ''nope'' ''start'') INSTANCE_NOT_FOUND, [])"
  using resource_locator_by_kind [of "''i-0zzz''" ex_ec2 ex_lightsail]
    resource_locator_by_kind [of "''i-0ccc''" ex_ec2 ex_lightsail]
    resource_locator_by_kind [of "''web''" ex_ec2 ex_lightsail]
    resource_locator_by_kind [of "''nope''" ex_ec2 ex_lightsail]
  by (simp add: ex_ec2_search ex_lightsail_search)

section \<open>The action decider\<close>

text \<open>
  C2. A schedule that passes the time window, the weekday filter and the holiday guard
  and asks for one of the four supported combinations follows the state table. Start
  against an instance whose state name is \<open>running\<close>, and stop against one whose state
  name is \<open>stopped\<close>, send nothing and report that the instance is already in that
  state. Any other state of a located instance, an absent state included, sends the
  start or stop command and reports the instruction. An instance that the lookup does
  not find yields the instance-not-found message and no command, whichever action was
  asked for.
\<close>

theorem action_decider_state_table:
  fixes tza :: int and currentDate newDate :: Date and currentDateStr :: string
    and holidays :: ApiHoliday and ec2Result :: DescribeInstancesCommandOutput
    and lightsailResult :: GetInstancesCommandOutput and schedule :: EventSchedule
  defines "run \<equiv> scheduleCallback tza currentDate currentDateStr holidays ec2Result
                    lightsailResult newDate schedule"
    and "rid \<equiv> EventSchedule.resourceId schedule"
  assumes "0 \<le> diffSecond tza currentDate newDate schedule"
    and "diffSecond tza currentDate newDate schedule \<le> 300"
    and "getDay tza currentDate \<in> set (weekdays schedule)"
    and "\<not> (currentDateStr \<in> dom holidays
            \<and> holiday schedule = Some CANCEL_EVENT_ON_PUBLIC_HOLIDAY)"
  shows
    "(EventSchedule.resourceType schedule = ''ec2'' \<and> EventSchedule.eventType schedule = ''start''
        \<longrightarrow>
        (\<forall>i. searchEc2Instance rid ec2Result = Some i \<longrightarrow>
           (Option.bind (State i) Name = Some ''running'' \<longrightarrow>
              run = (createResultItem schedule CANCELLED_INSTANCE_ALREADY_RUNNING, []))
         \<and> (Option.bind (State i) Name \<noteq> Some ''running'' \<longrightarrow>
              run = (createResultItem schedule INSTANCE_START_INSTRUCTED,
                     [StartInstancesCommand [rid]])))
        \<and> (searchEc2Instance rid ec2Result = None \<longrightarrow>
              run = (createResultItem schedule INSTANCE_NOT_FOUND, [])))
   \<and> (EventSchedule.resourceType schedule = ''ec2'' \<and> EventSchedule.eventType schedule = ''stop''
        \<longrightarrow>
        (\<forall>i. searchEc2Instance rid ec2Result = Some i \<longrightarrow>
           (Option.bind (State i) Name = Some ''stopped'' \<longrightarrow>
              run = (createResultItem schedule CANCELLED_INSTANCE_ALREADY_STOPPED, []))
         \<and> (Option.bind (State i) Name \<noteq> Some ''stopped'' \<longrightarrow>
              run = (createResultItem schedule INSTANCE_STOP_INSTRUCTED,
                     [StopInstancesCommand [rid]])))
        \<and> (searchEc2Instance rid ec2Result = None \<longrightarrow>
              run = (createResultItem schedule INSTANCE_NOT_FOUND, [])))
   \<and> (EventSchedule.resourceType schedule = ''lightsail''
        \<and> EventSchedule.eventType schedule = ''start'' \<longrightarrow>
        (\<forall>i. searchLightsailInstance rid lightsailResult = Some i \<longrightarrow>
           (Option.bind (state i) LightsailInstanceState.name = Some ''running'' \<longrightarrow>
              run = (createResultItem schedule CANCELLED_INSTANCE_ALREADY_RUNNING, []))
         \<and> (Option.bind (state i) LightsailInstanceState.name \<noteq> Some ''running'' \<longrightarrow>
              run = (createResultItem schedule INSTANCE_START_INSTRUCTED,
                     [StartInstanceCommand rid])))
        \<and> (searchLightsailInstance rid lightsailResult = None \<longrightarrow>
              run = (createResultItem schedule INSTANCE_NOT_FOUND, [])))
   \<and> (EventSchedule.resourceType schedule = ''lightsail''
        \<and> EventSchedule.eventType schedule = ''stop'' \<longrightarrow>
        (\<forall>i. searchLightsailInstance rid lightsailResult = Some i \<longrightarrow>
           (Option.bind (state i) LightsailInstanceState.name = Some ''stopped'' \<longrightarrow>
              run = (createResultItem schedule CANCELLED_INSTANCE_ALREADY_STOPPED, []))
         \<and> (Option.bind (state i) LightsailInstanceState.name \<noteq> Some ''stopped'' \<longrightarrow>
              run = (createResultItem schedule INSTANCE_STOP_INSTRUCTED,
                     [StopInstanceCommand rid])))
        \<and> (searchLightsailInstance rid lightsailResult = None \<longrightarrow>
              run = (createResultItem schedule INSTANCE_NOT_FOUND, [])))"
proof -
  have gates: "run =
     (if EventSchedule.resourceType schedule @ EventSchedule.eventType schedule = ''ec2start''
        then startEc2Instance schedule ec2Result
      else if EventSchedule.resourceType schedule @ EventSchedule.eventType schedule = ''ec2stop''
        then stopEc2Instance schedule ec2Result
      else if EventSchedule.resourceType schedule @ EventSchedule.eventType schedule
                = ''lightsailstart''
        then startLightsailInstance schedule lightsailResult
      else if EventSchedule.resourceType schedule @ EventSchedule.eventType schedule
                = ''lightsailstop''
        then stopLightsailInstance schedule lightsailResult
      else (createResultItem schedule SETTING_MAYBE_INCORRECT, []))"
    unfolding run_def using assms(3-6) by (rule scheduleCallback_dispatch)
  have e1: "EventSchedule.resourceType schedule = ''ec2'' \<Longrightarrow>
      EventSchedule.eventType schedule = ''start'' \<Longrightarrow> run = startEc2Instance schedule ec2Result"
    using gates by simp
  have e2: "EventSchedule.resourceType schedule = ''ec2'' \<Longrightarrow>
      EventSchedule.eventType schedule = ''stop'' \<Longrightarrow> run = stopEc2Instance schedule ec2Result"
    using gates by simp
  have l1: "EventSchedule.resourceType schedule = ''lightsail'' \<Longrightarrow>
      EventSchedule.eventType schedule = ''start'' \<Longrightarrow>
      run = startLightsailInstance schedule lightsailResult"
    using gates by simp
  have l2: "EventSchedule.resourceType schedule = ''lightsail'' \<Longrightarrow>
      EventSchedule.eventType schedule = ''stop'' \<Longrightarrow>
      run = stopLightsailInstance schedule lightsailResult"
    using gates by simp
  show ?thesis
    by (intro conjI impI allI; (elim conjE)?)
       (simp_all add: e1 e2 l1 l2 action_defs rid_def)
qed

text \<open>
  The theorem on Wednesday 2024-01-10 at 00:02:30 UTC against the concrete listings:
  start of a running instance, start of a stopped one, stop of a pending one, stop of an
  unknown id, and the Lightsail cases.
\<close>

theorem action_decider_state_table_witness:
  "scheduleCallback 0 (currentDate_of 0 wed_0002) ''2024-01-10'' ex_holidays ex_ec2
       ex_lightsail wed_0002 (ex_rule ''ec2'' ''i-0bbb'' ''start'')
     = (createResultItem (ex_rule ''ec2'' ''i-0bbb'' ''start'')
          CANCELLED_INSTANCE_ALREADY_RUNNING, [])
   \<and> scheduleCallback 0 (currentDate_of 0 wed_0002) ''2024-01-10'' ex_holidays ex_ec2
       ex_lightsail wed_0002 (ex_rule ''ec2'' ''i-0aaa'' ''start'')
     = (createResultItem (ex_rule ''ec2'' ''i-0aaa'' ''start'') INSTANCE_START_INSTRUCTED,
        [StartInstancesCommand [''i-0aaa'']])
   \<and> scheduleCallback 0 (currentDate_of 0 wed_0002) ''2024-01-10'' ex_holidays ex_ec2
       ex_lightsail wed_0002 (ex_rule ''ec2'' ''i-0ccc'' ''stop'')
     = (createResultItem (ex_rule ''ec2'' ''i-0ccc'' ''stop'') INSTANCE_STOP_INSTRUCTED,
        [StopInstancesCommand [''i-0ccc'']])
   \<and> scheduleCallback 0 (currentDate_of 0 wed_0002) ''2024-01-10'' ex_holidays ex_ec2
       ex_lightsail wed_0002 (ex_rule ''ec2'' ''i-0zzz'' ''stop'')
     = (createResultItem (ex_rule ''ec2'' ''i-0zzz'' ''stop'') INSTANCE_NOT_FOUND, [])
   \<and> scheduleCallback 0 (currentDate_of 0 wed_0002) ''2024-01-10'' ex_holidays ex_ec2
       ex_lightsail wed_0002 (ex_rule ''lightsail'' ''db'' ''stop'')
     = (createResultItem (ex_rule ''lightsail'' ''db'' ''stop'')
          CANCELLED_INSTANCE_ALREADY_STOPPED, [])
   \<and> scheduleCallback 0 (currentDate_of 0 wed_0002) ''2024-01-10'' ex_holidays ex_ec2
       ex_lightsail wed_0002 (ex_rule ''lightsail'' ''web'' ''stop'')
     = (createResultItem (ex_rule ''lightsail'' ''web'' ''stop'') INSTANCE_STOP_INSTRUCTED,
        [StopInstanceCommand ''web''])
   \<and> scheduleCallback 0 (currentDate_of 0 wed_0002) ''2024-01-10'' ex_holidays ex_ec2
       ex_lightsail wed_0002 (ex_rule ''lightsail'' ''nope'' ''start'')
     = (createResultItem (ex_rule ''lightsail'' ''nope'' ''start'') INSTANCE_NOT_FOUND, [])"
proof -
  note t = action_decider_state_table [where tza = 0
      and currentDate = "currentDate_of 0 wed_0002" and newDate = wed_0002
      and currentDateStr = "''2024-01-10''" and holidays = ex_holidays
      and ec2Result = ex_ec2 and lightsailResult = ex_lightsail]
  show ?thesis
    using t [where schedule = "ex_rule ''ec2'' ''i-0bbb'' ''start''"]
      t [where schedule = "ex_rule ''ec2'' ''i-0aaa'' ''start''"]
      t [where schedule = "ex_rule ''ec2'' ''i-0ccc'' ''stop''"]
      t [where schedule = "ex_rule ''ec2'' ''i-0zzz'' ''stop''"]
      t [where schedule = "ex_rule ''lightsail'' ''db'' ''stop''"]
      t [where schedule = "ex_rule ''lightsail'' ''web'' ''stop''"]
      t [where schedule = "ex_rule ''lightsail'' ''nope'' ''start''"]
    by (simp add: wed_0002_facts ex_holidays_lookup domIff ex_ec2_search ex_lightsail_search)
qed

section \<open>Listings with missing fields\<close>

text \<open>
  C10. The lookups have no failing path: a listing whose \<^verbatim>\<open>Reservations\<close> or
  \<^verbatim>\<open>instances\<close> field is absent, and reservations whose \<^verbatim>\<open>Instances\<close> field is absent
  or empty, make both lookups return nothing. A schedule that passes the three checks
  and asks for a supported combination against such listings gets the
  instance-not-found message, and no command is sent.
\<close>

theorem resource_locator_total:
  "((Reservations ec2Result = None
       \<or> (\<exists>rs. Reservations ec2Result = Some rs
                \<and> (\<forall>r \<in> set rs. Instances r = None \<or> Instances r = Some [])))
      \<longrightarrow> searchEc2Instance rid ec2Result = None)
   \<and> ((instances lightsailResult = None \<or> instances lightsailResult = Some [])
      \<longrightarrow> searchLightsailInstance rid lightsailResult = None)
   \<and> (0 \<le> diffSecond tza currentDate newDate schedule
        \<and> diffSecond tza currentDate newDate schedule \<le> 300
        \<and> getDay tza currentDate \<in> set (weekdays schedule)
        \<and> \<not> (currentDateStr \<in> dom holidays
               \<and> holiday schedule = Some CANCEL_EVENT_ON_PUBLIC_HOLIDAY)
        \<and> EventSchedule.resourceType schedule @ EventSchedule.eventType schedule
             \<in> {''ec2start'', ''ec2stop'', ''lightsailstart'', ''lightsailstop''}
        \<and> (Reservations ec2Result = None
             \<or> (\<exists>rs. Reservations ec2Result = Some rs
                      \<and> (\<forall>r \<in> set rs. Instances r = None \<or> Instances r = Some [])))
        \<and> (instances lightsailResult = None \<or> instances lightsailResult = Some [])
      \<longrightarrow> scheduleCallback tza currentDate currentDateStr holidays ec2Result
            lightsailResult newDate schedule
          = (createResultItem schedule INSTANCE_NOT_FOUND, []))"
proof -
  have e: "searchEc2Instance r ec2Result = None"
    if "Reservations ec2Result = None
       \<or> (\<exists>rs. Reservations ec2Result = Some rs
                \<and> (\<forall>r \<in> set rs. Instances r = None \<or> Instances r = Some []))" for r
    using that resource_locator_matching [of r ec2Result lightsailResult] by fastforce
  have l: "searchLightsailInstance r lightsailResult = None"
    if "instances lightsailResult = None \<or> instances lightsailResult = Some []" for r
    using that by (auto simp: searchLightsailInstance_def)
  have p: "scheduleCallback tza currentDate currentDateStr holidays ec2Result
            lightsailResult newDate schedule
          = (createResultItem schedule INSTANCE_NOT_FOUND, [])"
    if "0 \<le> diffSecond tza currentDate newDate schedule"
      "diffSecond tza currentDate newDate schedule \<le> 300"
      "getDay tza currentDate \<in> set (weekdays schedule)"
      "\<not> (currentDateStr \<in> dom holidays
               \<and> holiday schedule = Some CANCEL_EVENT_ON_PUBLIC_HOLIDAY)"
      "EventSchedule.resourceType schedule @ EventSchedule.eventType schedule
             \<in> {''ec2start'', ''ec2stop'', ''lightsailstart'', ''lightsailstop''}"
      "searchEc2Instance (EventSchedule.resourceId schedule) ec2Result = None"
      "searchLightsailInstance (EventSchedule.resourceId schedule) lightsailResult = None"
    unfolding scheduleCallback_dispatch [OF that(1-4)]
    using that(5-7) by (auto simp: action_defs)
  show ?thesis
  proof (intro conjI impI)
    assume "Reservations ec2Result = None
       \<or> (\<exists>rs. Reservations ec2Result = Some rs
                \<and> (\<forall>r \<in> set rs. Instances r = None \<or> Instances r = Some []))"
    then show "searchEc2Instance rid ec2Result = None" by (rule e)
  next
    assume "instances lightsailResult = None \<or> instances lightsailResult = Some []"
    then show "searchLightsailInstance rid lightsailResult = None" by (rule l)
  next
    assume "0 \<le> diffSecond tza currentDate newDate schedule
        \<and> diffSecond tza currentDate newDate schedule \<le> 300
        \<and> getDay tza currentDate \<in> set (weekdays schedule)
        \<and> \<not> (currentDateStr \<in> dom holidays
               \<and> holiday schedule = Some CANCEL_EVENT_ON_PUBLIC_HOLIDAY)
        \<and> EventSchedule.resourceType schedule @ EventSchedule.eventType schedule
             \<in> {''ec2start'', ''ec2stop'', ''lightsailstart'', ''lightsailstop''}
        \<and> (Reservations ec2Result = None
             \<or> (\<exists>rs. Reservations ec2Result = Some rs
                      \<and> (\<forall>r \<in> set rs. Instances r = None \<or> Instances r = Some [])))
        \<and> (instances lightsailResult = None \<or> instances lightsailResult = Some [])"
    then show "scheduleCallback tza currentDate currentDateStr holidays ec2Result
            lightsailResult newDate schedule
          = (createResultItem schedule INSTANCE_NOT_FOUND, [])"
      by (elim conjE) (rule p; (assumption | erule e | erule l))
  qed
qed

text \<open>
  The theorem on listings without fields and on reservations without instances, for an
  EC2 and a Lightsail rule on Wednesday 2024-01-10 at 00:02:30 UTC.
\<close>

theorem resource_locator_total_witness:
  "searchEc2Instance ''i-0aaa'' ec2_no_fields = None
   \<and> searchEc2Instance ''i-0aaa'' ec2_no_instances = None
   \<and> searchLightsailInstance ''web'' lightsail_no_fields = None
   \<and> scheduleCallback 0 (currentDate_of 0 wed_0002) ''2024-01-10'' ex_holidays
        ec2_no_instances lightsail_no_fields wed_0002 (ex_rule ''ec2'' ''i-0aaa'' ''start'')
     = (createResultItem (ex_rule ''ec2'' ''i-0aaa'' ''start'') INSTANCE_NOT_FOUND, [])
   \<and> scheduleCallback 0 (currentDate_of 0 wed_0002) ''2024-01-10'' ex_holidays
        ec2_no_fields lightsail_no_fields wed_0002 (ex_rule ''lightsail'' ''web'' ''stop'')
     = (createResultItem (ex_rule ''lightsail'' ''web'' ''stop'') INSTANCE_NOT_FOUND, [])"
proof -
  note t = resource_locator_total [where tza = 0
      and currentDate = "currentDate_of 0 wed_0002" and newDate = wed_0002
      and currentDateStr = "''2024-01-10''" and holidays = ex_holidays
      and lightsailResult = lightsail_no_fields]
  show ?thesis
    using t [where ec2Result = ec2_no_fields and rid = "''i-0aaa''"
               and schedule = "ex_rule ''lightsail'' ''web'' ''stop''"]
      t [where ec2Result = ec2_no_instances and rid = "''i-0aaa''"
               and schedule = "ex_rule ''ec2'' ''i-0aaa'' ''start''"]
      t [where ec2Result = ec2_no_fields and rid = "''web''"
               and schedule = "ex_rule ''lightsail'' ''web'' ''stop''"]
    by (simp add: wed_0002_facts ex_holidays_lookup domIff ec2_no_fields_def
        ec2_no_instances_def lightsail_no_fields_def)
qed

section \<open>Unrecognised configurations\<close>

text \<open>
  C4, as the code has it. The handler dispatches on the concatenation
  \<^verbatim>\<open>resourceType + eventType\<close>. A schedule that passes the three checks and whose
  concatenated key is none of \<open>ec2start\<close>, \<open>ec2stop\<close>, \<open>lightsailstart\<close>,
  \<open>lightsailstop\<close> gets the setting-may-be-incorrect message and sends no command; the
  schedules before and after it are evaluated as they are without it, each with its own
  clock reading, and their results and commands surround its result in order.
\<close>

theorem unrecognized_configuration_skipped:
  fixes tza :: int and now :: Date and clock :: "nat \<Rightarrow> Date" and holidays :: ApiHoliday
    and ec2Result :: DescribeInstancesCommandOutput
    and lightsailResult :: GetInstancesCommandOutput
    and pre post :: "EventSchedule list" and schedule :: EventSchedule
  defines "currentDate \<equiv> currentDate_of tza now"
    and "currentDateStr \<equiv> currentDateStr_of tza (currentDate_of tza now)"
    and "newDate \<equiv> clock (length pre)"
  assumes "0 \<le> diffSecond tza currentDate newDate schedule"
    and "diffSecond tza currentDate newDate schedule \<le> 300"
    and "getDay tza currentDate \<in> set (weekdays schedule)"
    and "\<not> (currentDateStr \<in> dom holidays
            \<and> holiday schedule = Some CANCEL_EVENT_ON_PUBLIC_HOLIDAY)"
    and "EventSchedule.resourceType schedule @ EventSchedule.eventType schedule
           \<notin> {''ec2start'', ''ec2stop'', ''lightsailstart'', ''lightsailstop''}"
  shows
    "scheduleCallback tza currentDate currentDateStr holidays ec2Result lightsailResult
       newDate schedule
     = (createResultItem schedule SETTING_MAYBE_INCORRECT, [])
     \<and> handler tza now clock holidays ec2Result lightsailResult
         \<lparr>schedules = pre @ schedule # post\<rparr>
       = (fst (handler tza now clock holidays ec2Result lightsailResult \<lparr>schedules = pre\<rparr>)
            @ createResultItem schedule SETTING_MAYBE_INCORRECT
            # fst (handler tza now (\<lambda>i. clock (Suc (length pre) + i)) holidays ec2Result
                     lightsailResult \<lparr>schedules = post\<rparr>),
          snd (handler tza now clock holidays ec2Result lightsailResult \<lparr>schedules = pre\<rparr>)
            @ snd (handler tza now (\<lambda>i. clock (Suc (length pre) + i)) holidays ec2Result
                     lightsailResult \<lparr>schedules = post\<rparr>))"
proof -
  have cb: "scheduleCallback tza currentDate currentDateStr holidays ec2Result lightsailResult
       newDate schedule = (createResultItem schedule SETTING_MAYBE_INCORRECT, [])"
    using assms(4-8) by (rule scheduleCallback_unrecognized)
  have split: "pre @ schedule # post = pre @ ([schedule] @ post)"
    by simp
  have "handler tza now clock holidays ec2Result lightsailResult
         \<lparr>schedules = pre @ schedule # post\<rparr>
       = (fst (handler tza now clock holidays ec2Result lightsailResult \<lparr>schedules = pre\<rparr>)
            @ fst (scheduleCallback tza currentDate currentDateStr holidays ec2Result
                     lightsailResult newDate schedule)
            # fst (handler tza now (\<lambda>i. clock (Suc (length pre) + i)) holidays ec2Result
                     lightsailResult \<lparr>schedules = post\<rparr>),
          snd (handler tza now clock holidays ec2Result lightsailResult \<lparr>schedules = pre\<rparr>)
            @ snd (scheduleCallback tza currentDate currentDateStr holidays ec2Result
                     lightsailResult newDate schedule)
            @ snd (handler tza now (\<lambda>i. clock (Suc (length pre) + i)) holidays ec2Result
                     lightsailResult \<lparr>schedules = post\<rparr>))"
    unfolding split handler_append handler_single
    by (simp add: currentDate_def currentDateStr_def newDate_def)
  with cb show ?thesis by simp
qed

text \<open>
  The theorem for an \<open>rds\<close> rule between an EC2 start and a Lightsail stop, on Wednesday
  2024-01-10 at 00:02:30 UTC.
\<close>

theorem unrecognized_configuration_skipped_witness:
  "handler 0 wed_0002 (frozen_clock wed_0002) ex_holidays ex_ec2 ex_lightsail
     \<lparr>schedules = [ex_rule ''ec2'' ''i-0aaa'' ''start''] @ ex_rule ''rds'' ''db'' ''stop''
                    # [ex_rule ''lightsail'' ''web'' ''stop'']\<rparr>
   = ([createResultItem (ex_rule ''ec2'' ''i-0aaa'' ''start'') INSTANCE_START_INSTRUCTED,
       createResultItem (ex_rule ''rds'' ''db'' ''stop'') SETTING_MAYBE_INCORRECT,
       createResultItem (ex_rule ''lightsail'' ''web'' ''stop'') INSTANCE_STOP_INSTRUCTED],
      [StartInstancesCommand [''i-0aaa''], StopInstanceCommand ''web''])"
  using unrecognized_configuration_skipped [of 0 wed_0002 "frozen_clock wed_0002"
      "[ex_rule ''ec2'' ''i-0aaa'' ''start'']" "ex_rule ''rds'' ''db'' ''stop''"
      ex_holidays ex_ec2 ex_lightsail "[ex_rule ''lightsail'' ''web'' ''stop'']"]
  by (simp add: frozen_clock_def wed_0002_str wed_0002_facts ex_holidays_lookup domIff
      handler_single wed_0002_callback action_defs ex_ec2_search ex_lightsail_search)

text \<open>
  C4 as stated speaks of the pair (resource type, event type). The pair
  (\<open>ec2s\<close>, \<open>tart\<close>) is none of the four supported pairs, yet its concatenation is
  \<open>ec2start\<close>: the schedule passes the three checks, is treated as an EC2 start, and the
  stopped instance is started.
\<close>

theorem unrecognized_pair_counterexample:
  "(EventSchedule.resourceType (ex_rule ''ec2s'' ''i-0aaa'' ''tart''),
    EventSchedule.eventType (ex_rule ''ec2s'' ''i-0aaa'' ''tart''))
     \<notin> {(''ec2'', ''start''), (''ec2'', ''stop''), (''lightsail'', ''start''),
         (''lightsail'', ''stop'')}
   \<and> diffSecond 0 (currentDate_of 0 wed_0002) wed_0002 (ex_rule ''ec2s'' ''i-0aaa'' ''tart'')
       = 120
   \<and> getDay 0 (currentDate_of 0 wed_0002) \<in> set (weekdays (ex_rule ''ec2s'' ''i-0aaa'' ''tart''))
   \<and> currentDateStr_of 0 (currentDate_of 0 wed_0002) \<notin> dom ex_holidays
   \<and> scheduleCallback 0 (currentDate_of 0 wed_0002)
        (currentDateStr_of 0 (currentDate_of 0 wed_0002)) ex_holidays ex_ec2 ex_lightsail
        wed_0002 (ex_rule ''ec2s'' ''i-0aaa'' ''tart'')
     = (createResultItem (ex_rule ''ec2s'' ''i-0aaa'' ''tart'') INSTANCE_START_INSTRUCTED,
        [StartInstancesCommand [''i-0aaa'']])"
  by (simp add: wed_0002_str wed_0002_facts ex_holidays_lookup domIff wed_0002_callback
      startEc2Instance_def ex_ec2_search)

section \<open>One result per schedule\<close>

text \<open>
  C3. The handler produces one result item per schedule, in the order of the
  schedules: the results are as many as the schedules, the item at each index carries
  the resource type, resource id and event type of the schedule at that index, and it
  is the result of the callback on that schedule.
\<close>

theorem one_result_per_schedule:
  "length (fst (handler tza now clock holidays ec2Result lightsailResult event))
     = length (schedules event)
   \<and> map (\<lambda>r. (resouceType r, ResultItem.resourceId r, ResultItem.eventType r))
        (fst (handler tza now clock holidays ec2Result lightsailResult event))
     = map (\<lambda>s. (EventSchedule.resourceType s, EventSchedule.resourceId s,
                  EventSchedule.eventType s)) (schedules event)
   \<and> (\<forall>i < length (schedules event).
        fst (handler tza now clock holidays ec2Result lightsailResult event) ! i
        = fst (scheduleCallback tza (currentDate_of tza now)
                 (currentDateStr_of tza (currentDate_of tza now)) holidays ec2Result
                 lightsailResult (clock i) (schedules event ! i)))"
proof -
  let ?cb = "\<lambda>i schedule. fst (scheduleCallback tza (currentDate_of tza now)
                 (currentDateStr_of tza (currentDate_of tza now)) holidays ec2Result
                 lightsailResult (clock i) schedule)"
  let ?key = "\<lambda>r. (resouceType r, ResultItem.resourceId r, ResultItem.eventType r)"
  have res: "fst (handler tza now clock holidays ec2Result lightsailResult event)
      = map (\<lambda>(i, schedule). ?cb i schedule) (enumerate 0 (schedules event))"
    by (rule handler_results)
  have len: "length (fst (handler tza now clock holidays ec2Result lightsailResult event))
      = length (schedules event)"
    unfolding res by simp
  have "map ?key (fst (handler tza now clock holidays ec2Result lightsailResult event))
      = map (\<lambda>(i, s). (EventSchedule.resourceType s, EventSchedule.resourceId s,
                  EventSchedule.eventType s)) (enumerate 0 (schedules event))"
    unfolding res by (simp add: case_prod_unfold comp_def callback_result_fields)
  then have keys: "map ?key (fst (handler tza now clock holidays ec2Result lightsailResult event))
      = map (\<lambda>s. (EventSchedule.resourceType s, EventSchedule.resourceId s,
                  EventSchedule.eventType s)) (schedules event)"
    by (simp only: map_enumerate_values)
  have nth: "\<forall>i < length (schedules event).
        fst (handler tza now clock holidays ec2Result lightsailResult event) ! i
        = ?cb i (schedules event ! i)"
    unfolding res by (simp add: nth_enumerate_eq)
  from len keys nth show ?thesis by blast
qed

text \<open>The theorem on the four schedules of \<open>ex_event\<close>.\<close>

theorem one_result_per_schedule_witness:
  "length (fst (handler 0 wed_0002 (frozen_clock wed_0002) ex_holidays ex_ec2 ex_lightsail
                  ex_event)) = 4
   \<and> map (\<lambda>r. (resouceType r, ResultItem.resourceId r, ResultItem.eventType r))
        (fst (handler 0 wed_0002 (frozen_clock wed_0002) ex_holidays ex_ec2 ex_lightsail
                ex_event))
     = [(''ec2'', ''i-0aaa'', ''start''), (''ec2'', ''i-0bbb'', ''start''),
        (''rds'', ''db'', ''stop''), (''lightsail'', ''web'', ''stop'')]
   \<and> fst (handler 0 wed_0002 (frozen_clock wed_0002) ex_holidays ex_ec2 ex_lightsail
            ex_event) ! 1
     = createResultItem (ex_rule ''ec2'' ''i-0bbb'' ''start'')
         CANCELLED_INSTANCE_ALREADY_RUNNING"
  using one_result_per_schedule [where tza = 0 and now = wed_0002
      and clock = "frozen_clock wed_0002" and event = ex_event and holidays = ex_holidays
      and ec2Result = ex_ec2 and lightsailResult = ex_lightsail]
  by (simp add: ex_event_def frozen_clock_def wed_0002_str wed_0002_callback
      startEc2Instance_def ex_ec2_search)

section \<open>Repeating an evaluation\<close>

text \<open>
  C8. Evaluating the same schedules at the same current instant against the same
  holiday table and the same listings is to give the same results. The handler misses
  this at midnight of the process zone. Its callback takes the day of the target
  instant from a clock reading of its own (line 72) and not from \<^verbatim>\<open>currentDate\<close>, which
  every other check uses and against which the comment above that line asks the
  difference to be taken. The handler reads the clock at 23:59:59.900 UTC, on a rule due
  at 23:59. With the callback's reading 50 ms later the difference is 0 and the stopped
  instance is started. With the callback's reading 200 ms later, on the next day, the
  target lands a day late, the difference is -86400 seconds, and the rule is reported
  as outside its time window, although schedules, current instant, holiday table and
  listings are the same.
\<close>

theorem evaluation_rereads_clock:
  "getHours 0 late_now = 23 \<and> getMinutes 0 late_now = 59
   \<and> eventHour late_rule = 23 \<and> eventMinute late_rule = 59
   \<and> diffSecond 0 (currentDate_of 0 late_now) (clock_same_day 0) late_rule = 0
   \<and> handler 0 late_now clock_same_day ex_holidays ex_ec2 ex_lightsail late_event
     = ([createResultItem late_rule INSTANCE_START_INSTRUCTED],
        [StartInstancesCommand [''i-0aaa'']])
   \<and> diffSecond 0 (currentDate_of 0 late_now) (clock_next_day 0) late_rule = - 86400
   \<and> handler 0 late_now clock_next_day ex_holidays ex_ec2 ex_lightsail late_event
     = ([createResultItem late_rule CANCELLED_TIME_OUT_OF_RANGE], [])"
  by (simp add: late_event_def handler_single late_now_str scheduleCallback_def late_now_facts
      todayIsHoliday_def ex_holidays_def startEc2Instance_def ex_ec2_search late_rule_sel
      late_now_clock)

text \<open>
  The day of the callback's reading is all that the results take from it: readings on
  the same local day, schedule by schedule, give the same results and commands.
\<close>

lemma handler_same_day_clock:
  assumes "\<forall>i < length (schedules event).
             Day (LocalTime tza (clock i)) = Day (LocalTime tza (clock' i))"
  shows "handler tza now clock holidays ec2Result lightsailResult event
       = handler tza now clock' holidays ec2Result lightsailResult event"
proof -
  have "\<forall>p \<in> set (enumerate 0 (schedules event)).
          Day (LocalTime tza (clock (fst p))) = Day (LocalTime tza (clock' (fst p)))"
    using assms by (auto simp: in_set_enumerate_eq)
  then have "map (\<lambda>(i, schedule).
                   scheduleCallback tza (currentDate_of tza now)
                     (currentDateStr_of tza (currentDate_of tza now)) holidays
                     ec2Result lightsailResult (clock i) schedule)
                 (enumerate 0 (schedules event))
           = map (\<lambda>(i, schedule).
                   scheduleCallback tza (currentDate_of tza now)
                     (currentDateStr_of tza (currentDate_of tza now)) holidays
                     ec2Result lightsailResult (clock' i) schedule)
                 (enumerate 0 (schedules event))"
    by (intro map_cong refl) (force intro: scheduleCallback_day)
  then show ?thesis unfolding handler_def Let_def by (rule arg_cong)
qed

end
